theory Spec2Isabelle
  imports Main "HOL-Library.Multiset"
begin

section \<open>Data model\<close>

text \<open>
  The client is one React component (\<^verbatim>\<open>App\<close>) over a small service wrapper
  (\<^verbatim>\<open>api\<close>). JavaScript numbers that carry room numbers, floors, positions and
  counts are modelled as \<open>int\<close>; a number whose text is displayed is a \<open>number\<close>
  (below); strings are \<open>string\<close>, one \<open>char\<close> per code unit. A field marked \<^verbatim>\<open>?\<close> is an \<open>option\<close>: \<open>None\<close> is the absent field,
  which reads as \<^verbatim>\<open>undefined\<close>.

  Several interfaces share field names (\<^verbatim>\<open>message\<close>, \<^verbatim>\<open>rooms\<close>, \<^verbatim>\<open>floor\<close>, ...).
  Each record keeps the names of its interface; where two records have a field of the
  same name, the unqualified name is the field of the record declared last, and the
  other is written with its record's name, as in \<open>BookingResponse.message response\<close>.
\<close>

subsection \<open>Numbers that are printed\<close>

text \<open>
  A JavaScript number whose text the component displays. Every integer of magnitude at
  most \<^verbatim>\<open>Number.MAX_SAFE_INTEGER\<close> (2^53 - 1) is a number and prints as its decimal
  digits: these are the \<open>safe_integer\<close>s. Any other number (a fraction, a larger
  magnitude, which prints rounded or with an exponent) is \<open>Other\<close>, and carries the
  text that \<^verbatim>\<open>Number.prototype.toString\<close> gives for it: the model takes that text
  from the engine and does not compute it.
\<close>

typedef safe_integer = "{n :: int. - 9007199254740991 \<le> n \<and> n \<le> 9007199254740991}"
  by (rule exI [of _ 0]) simp

datatype number = Integer safe_integer | Other string

subsection \<open>Values that cross the wire\<close>

text \<open>
  Modelled from the spec: the declaration of \<^verbatim>\<open>RoomPathInfo\<close>, which the component
  imports from the service wrapper, and the field \<^verbatim>\<open>room_paths\<close> of the booking
  response that carries it. The spec gives
  \<^verbatim>\<open>RoomPath { room_number, floor, position, total_time, steps }\<close> and
  \<^verbatim>\<open>room_paths: sequence<RoomPath> (optional)\<close>.
\<close>

record RoomPathInfo =
  room_number :: int
  floor :: int
  position :: int
  total_time :: int
  steps :: "string list"

text \<open>\<^verbatim>\<open>interface MessageResponse\<close> and \<^verbatim>\<open>interface BookingResponse\<close>.\<close>

record MessageResponse =
  success :: bool
  message :: string

record BookingResponse =
  success :: bool
  message :: string
  booked_rooms :: "int list"
  total_travel_time :: "number option"
  room_paths :: "RoomPathInfo list option"

datatype status = available | booked

text \<open>
  \<^verbatim>\<open>interface Room\<close> of the service wrapper and \<^verbatim>\<open>interface RoomData\<close> of the
  component have the same fields; the component stores the wrapper's rooms as they
  arrive. \<open>guest_id\<close> is \<open>None\<close> when the field is absent or null.
\<close>

record Room =
  room_number :: int
  floor :: int
  position :: int
  status :: status
  guest_id :: "string option"

type_synonym RoomData = Room

text \<open>
  \<^verbatim>\<open>Record<number, RoomData>\<close>: a JavaScript object whose keys are room numbers.
  An object enumerates its integer keys in ascending order, so the object is the list
  of its entries in ascending key order; \<open>obj_put\<close> is the assignment
  \<^verbatim>\<open>obj[key] = v\<close> and \<open>Object_values\<close> is \<^verbatim>\<open>Object.values(obj)\<close>.
\<close>

type_synonym 'v obj = "(int \<times> 'v) list"

fun obj_put :: "'v obj \<Rightarrow> int \<Rightarrow> 'v \<Rightarrow> 'v obj" where
  "obj_put [] key v = [(key, v)]"
| "obj_put ((k, u) # rest) key v =
     (if key = k then (k, v) # rest
      else if key < k then (key, v) # (k, u) # rest
      else (k, u) # obj_put rest key v)"

definition Object_values :: "'v obj \<Rightarrow> 'v list" where
  "Object_values m = map snd m"

text \<open>\<^verbatim>\<open>interface RoomStateResponse\<close>.\<close>

record RoomStateResponse =
  rooms :: "Room obj"
  total_rooms :: int
  available_rooms :: int
  booked_rooms :: int

section \<open>The service wrapper\<close>

subsection \<open>Responses and requests\<close>

text \<open>
  A parsed JSON value, as \<^verbatim>\<open>response.json()\<close> yields it where the code gives it no
  type (the body of a failed booking).
\<close>

datatype json =
    JNull
  | JBool bool
  | JNum number
  | JStr string
  | JArr "json list"
  | JObj "(string \<times> json) list"

text \<open>
  What a \<^verbatim>\<open>catch\<close> can receive. Every value thrown on the paths modelled here is
  an \<^verbatim>\<open>Error\<close> (also a \<^verbatim>\<open>TypeError\<close> of \<^verbatim>\<open>fetch\<close> and a
  \<^verbatim>\<open>SyntaxError\<close> of \<^verbatim>\<open>response.json()\<close>); \<open>NotAnError\<close> stands for any
  other thrown value, so that the \<^verbatim>\<open>instanceof\<close> test of the handlers has both
  branches.
\<close>

datatype thrown = Error string | NotAnError

text \<open>
  A response: \<open>Ok\<close> when \<^verbatim>\<open>response.ok\<close> holds, with what \<^verbatim>\<open>response.json()\<close>
  gives at the type the wrapper declares for it; \<open>NotOk\<close> otherwise, with what
  \<^verbatim>\<open>response.json()\<close> gives untyped. \<open>Inl\<close> is a rejection of
  \<^verbatim>\<open>response.json()\<close>: the body is not JSON.
\<close>

datatype 'a Response = Ok "thrown + 'a" | NotOk "thrown + json"

text \<open>
  How an \<^verbatim>\<open>await fetch(...)\<close> settles: \<open>Rejected\<close> when no response arrives (the
  promise rejects), \<open>Resolved\<close> with the response otherwise.
\<close>

datatype 'a settled = Rejected thrown | Resolved "'a Response"

text \<open>The requests the wrapper sends, by endpoint, with the JSON body's fields.\<close>

datatype request =
    GET_rooms
  | POST_book int "string option"
  | POST_reset
  | POST_random_occupancy int

subsection \<open>JavaScript conversions used on the error path\<close>

text \<open>
  \<^verbatim>\<open>Number.prototype.toString\<close>: for a safe integer its decimal digits, with a sign
  when it is negative; for any other number the text the number carries.
\<close>

definition digit_char :: "nat \<Rightarrow> char" where
  "digit_char n = ''0123456789'' ! n"

fun decimal :: "nat \<Rightarrow> string" where
  "decimal n = (if n < 10 then [digit_char n] else decimal (n div 10) @ [digit_char (n mod 10)])"

declare decimal.simps [simp del]

fun Number_toString :: "number \<Rightarrow> string" where
  "Number_toString (Integer i) =
     (if Rep_safe_integer i < 0 then CHR ''-'' # decimal (nat (- Rep_safe_integer i))
      else decimal (nat (Rep_safe_integer i)))"
| "Number_toString (Other rendering) = rendering"

text \<open>
  \<^verbatim>\<open>error.detail\<close> on a parsed body: a \<^verbatim>\<open>TypeError\<close> on \<^verbatim>\<open>null\<close>, the field of
  an object when it has one, \<^verbatim>\<open>undefined\<close> (\<open>None\<close>) in every other case. The
  text of the \<^verbatim>\<open>TypeError\<close> is the engine's (here V8's).
\<close>

definition null_detail_TypeError :: thrown where
  "null_detail_TypeError = Error ''Cannot read properties of null (reading 'detail')''"

fun get_detail :: "json \<Rightarrow> thrown + json option" where
  "get_detail JNull = Inl null_detail_TypeError"
| "get_detail (JObj members) = Inr (map_of members ''detail'')"
| "get_detail _ = Inr None"

text \<open>
  Truthiness, as \<^verbatim>\<open>||\<close> tests it. Among the numbers only zero is falsy (a JSON
  body holds no \<^verbatim>\<open>NaN\<close>), and zero is a safe integer.
\<close>

fun truthy :: "json option \<Rightarrow> bool" where
  "truthy None = False"
| "truthy (Some JNull) = False"
| "truthy (Some (JBool b)) = b"
| "truthy (Some (JNum (Integer i))) = (Rep_safe_integer i \<noteq> 0)"
| "truthy (Some (JNum (Other _))) = True"
| "truthy (Some (JStr s)) = (s \<noteq> [])"
| "truthy (Some (JArr _)) = True"
| "truthy (Some (JObj _)) = True"

text \<open>
  \<^verbatim>\<open>ToString\<close>, which \<^verbatim>\<open>new Error(x)\<close> applies to its argument: a string is
  itself, an array joins its elements with commas (\<^verbatim>\<open>null\<close> elements as the empty
  string), an object is \<^verbatim>\<open>[object Object]\<close>.
\<close>

fun join :: "string list \<Rightarrow> string" where
  "join [] = []"
| "join [s] = s"
| "join (s # t # rest) = s @ '','' @ join (t # rest)"

fun ToString :: "json \<Rightarrow> string" where
  "ToString JNull = ''null''"
| "ToString (JBool b) = (if b then ''true'' else ''false'')"
| "ToString (JNum n) = Number_toString n"
| "ToString (JStr s) = s"
| "ToString (JArr xs) = join (map (\<lambda>x. if x = JNull then [] else ToString x) xs)"
| "ToString (JObj _) = ''[object Object]''"

subsection \<open>The four operations\<close>

text \<open>
  Each operation of \<^verbatim>\<open>api\<close> sends one request, awaits it, and turns what it gets
  into its result or a thrown value. The request is sent by the caller's step (see
  \<open>fetch\<close> below); the functions here are what runs once the \<^verbatim>\<open>await\<close> settles:
  \<open>Inl\<close> is \<^verbatim>\<open>throw\<close>, \<open>Inr\<close> is \<^verbatim>\<open>return\<close>.
\<close>

fun getRooms :: "RoomStateResponse settled \<Rightarrow> thrown + RoomStateResponse" where
  "getRooms (Rejected e) = Inl e"
| "getRooms (Resolved (NotOk _)) = Inl (Error ''Failed to fetch rooms'')"
| "getRooms (Resolved (Ok j)) = j"

fun bookRooms :: "BookingResponse settled \<Rightarrow> thrown + BookingResponse" where
  "bookRooms (Rejected e) = Inl e"
| "bookRooms (Resolved (NotOk j)) =
     (case j of
        Inl e \<Rightarrow> Inl e
      | Inr error \<Rightarrow>
          (case get_detail error of
             Inl e \<Rightarrow> Inl e
           | Inr detail \<Rightarrow>
               Inl (Error (if truthy detail then ToString (the detail)
                           else ''Failed to book rooms''))))"
| "bookRooms (Resolved (Ok j)) = j"

fun resetBookings :: "MessageResponse settled \<Rightarrow> thrown + MessageResponse" where
  "resetBookings (Rejected e) = Inl e"
| "resetBookings (Resolved (NotOk _)) = Inl (Error ''Failed to reset bookings'')"
| "resetBookings (Resolved (Ok j)) = j"

fun generateRandomOccupancy :: "MessageResponse settled \<Rightarrow> thrown + MessageResponse" where
  "generateRandomOccupancy (Rejected e) = Inl e"
| "generateRandomOccupancy (Resolved (NotOk _)) =
     Inl (Error ''Failed to generate random occupancy'')"
| "generateRandomOccupancy (Resolved (Ok j)) = j"


section \<open>The component\<close>

subsection \<open>State\<close>

text \<open>
  The \<^verbatim>\<open>useState\<close> cells of \<^verbatim>\<open>App\<close>, under their names. The message is
  displayed when it is not the empty string (\<^verbatim>\<open>{message && ...}\<close>), the dialog when
  \<open>showPathDialog\<close> holds.
\<close>

datatype kind = success | error

record Statistics =
  total_rooms :: int
  available_rooms :: int
  booked_rooms :: int

record App =
  numRooms :: string
  rooms :: "RoomData obj"
  loading :: bool
  message :: string
  messageType :: kind
  statistics :: Statistics
  showPathDialog :: bool
  roomPaths :: "RoomPathInfo list"

text \<open>
  The session: the component's state and what the component has handed to the browser.
  \<open>now\<close> is the clock, in milliseconds; \<open>timeouts\<close> holds the time at which each
  pending \<^verbatim>\<open>setTimeout\<close> callback is due (the only callback the component ever
  registers is \<^verbatim>\<open>() => setMessage('')\<close>); \<open>sent\<close> is the requests that
  \<^verbatim>\<open>fetch\<close> has sent, oldest first.
\<close>

record Session = App +
  now :: nat
  timeouts :: "nat list"
  sent :: "request list"

definition initial :: Session where
  "initial =
     \<lparr>numRooms = ''1'', rooms = [], loading = False, message = [], messageType = success,
      statistics = \<lparr>total_rooms = 97, available_rooms = 97, booked_rooms = 0\<rparr>,
      showPathDialog = False, roomPaths = [],
      now = 0, timeouts = [], sent = []\<rparr>"

definition setRooms :: "RoomData obj \<Rightarrow> Session \<Rightarrow> Session" where
  "setRooms v w = w\<lparr>rooms := v\<rparr>"

definition setLoading :: "bool \<Rightarrow> Session \<Rightarrow> Session" where
  "setLoading v w = w\<lparr>loading := v\<rparr>"

definition setMessage :: "string \<Rightarrow> Session \<Rightarrow> Session" where
  "setMessage v w = w\<lparr>message := v\<rparr>"

definition setMessageType :: "kind \<Rightarrow> Session \<Rightarrow> Session" where
  "setMessageType v w = w\<lparr>messageType := v\<rparr>"

definition setStatistics :: "Statistics \<Rightarrow> Session \<Rightarrow> Session" where
  "setStatistics v w = w\<lparr>statistics := v\<rparr>"

definition setShowPathDialog :: "bool \<Rightarrow> Session \<Rightarrow> Session" where
  "setShowPathDialog v w = w\<lparr>showPathDialog := v\<rparr>"

definition setRoomPaths :: "RoomPathInfo list \<Rightarrow> Session \<Rightarrow> Session" where
  "setRoomPaths v w = w\<lparr>roomPaths := v\<rparr>"

text \<open>\<^verbatim>\<open>setTimeout(() => setMessage(''), delay)\<close> and \<^verbatim>\<open>fetch(request)\<close>.\<close>

definition setTimeout :: "nat \<Rightarrow> Session \<Rightarrow> Session" where
  "setTimeout delay w = w\<lparr>timeouts := timeouts w @ [now w + delay]\<rparr>"

definition fetch :: "request \<Rightarrow> Session \<Rightarrow> Session" where
  "fetch r w = w\<lparr>sent := sent w @ [r]\<rparr>"

text \<open>
  Time passes by \<open>dt\<close> milliseconds while nothing else happens: every callback due by
  then runs (each is \<^verbatim>\<open>setMessage('')\<close>) and leaves the pending ones.
\<close>

definition wait :: "nat \<Rightarrow> Session \<Rightarrow> Session" where
  "wait dt w =
     (let t = now w + dt;
          due = filter (\<lambda>d. d \<le> t) (timeouts w);
          pending = filter (\<lambda>d. t < d) (timeouts w)
      in (fold (\<lambda>d. setMessage []) due w)\<lparr>now := t, timeouts := pending\<rparr>)"

section \<open>The room registry\<close>

subsection \<open>The synthetic layout\<close>

text \<open>
  The two loops of \<^verbatim>\<open>initializeRooms\<close>, each as a recursive function of its
  counter and of the map built so far:
  \<^verbatim>\<open>for (let pos = 0; pos < 10; pos++) { roomsMap[floor * 100 + (pos + 1)] = ... }\<close>
  inside \<^verbatim>\<open>for (let floor = 1; floor <= 9; floor++)\<close>, then
  \<^verbatim>\<open>for (let pos = 0; pos < 7; pos++) { roomsMap[1000 + (pos + 1)] = ... }\<close>.
\<close>

function floor_positions :: "int \<Rightarrow> int \<Rightarrow> RoomData obj \<Rightarrow> RoomData obj" where
  "floor_positions fl pos roomsMap =
     (if pos < 10 then
        (let roomNumber = fl * 100 + (pos + 1) in
         floor_positions fl (pos + 1)
           (obj_put roomsMap roomNumber
              \<lparr>room_number = roomNumber, floor = fl, position = pos,
               status = available, guest_id = None\<rparr>))
      else roomsMap)"
  by pat_completeness auto
termination
  by (relation "measure (\<lambda>(fl, pos, roomsMap). nat (10 - pos))") auto

function floors_1_to_9 :: "int \<Rightarrow> RoomData obj \<Rightarrow> RoomData obj" where
  "floors_1_to_9 fl roomsMap =
     (if fl \<le> 9 then floors_1_to_9 (fl + 1) (floor_positions fl 0 roomsMap)
      else roomsMap)"
  by pat_completeness auto
termination
  by (relation "measure (\<lambda>(fl, roomsMap). nat (10 - fl))") auto

function floor_10 :: "int \<Rightarrow> RoomData obj \<Rightarrow> RoomData obj" where
  "floor_10 pos roomsMap =
     (if pos < 7 then
        (let roomNumber = 1000 + (pos + 1) in
         floor_10 (pos + 1)
           (obj_put roomsMap roomNumber
              \<lparr>room_number = roomNumber, floor = 10, position = pos,
               status = available, guest_id = None\<rparr>))
      else roomsMap)"
  by pat_completeness auto
termination
  by (relation "measure (\<lambda>(pos, roomsMap). nat (7 - pos))") auto

declare floor_positions.simps [simp del]
declare floors_1_to_9.simps [simp del]
declare floor_10.simps [simp del]

text \<open>
  \<^verbatim>\<open>initializeRooms\<close>: the map starts empty, the loops fill it, and
  \<^verbatim>\<open>setRooms(roomsMap)\<close> stores it.
\<close>

definition initializeRooms :: "Session \<Rightarrow> Session" where
  "initializeRooms w = setRooms (floor_10 0 (floors_1_to_9 1 [])) w"

text \<open>
  What the body of either loop writes for a floor and a position: the key and the room
  (on floor 10 the key \<^verbatim>\<open>1000 + (pos + 1)\<close> is \<open>10 * 100 + (pos + 1)\<close>).
\<close>

definition entry :: "int \<Rightarrow> int \<Rightarrow> int \<times> RoomData" where
  "entry fl pos =
     (fl * 100 + (pos + 1),
      \<lparr>room_number = fl * 100 + (pos + 1), floor = fl, position = pos,
       status = available, guest_id = None\<rparr>)"

subsection \<open>Rooms of one floor\<close>

text \<open>
  \<^verbatim>\<open>Array.prototype.sort(compare)\<close> is stable, and for a consistent comparator its
  result is the stable sort: insertion of each element before the first element it
  does not have to follow.
\<close>

fun insert_by :: "('a \<Rightarrow> 'a \<Rightarrow> int) \<Rightarrow> 'a \<Rightarrow> 'a list \<Rightarrow> 'a list" where
  "insert_by cmp x [] = [x]"
| "insert_by cmp x (y # ys) =
     (if cmp x y \<le> 0 then x # y # ys else y # insert_by cmp x ys)"

definition Array_sort :: "('a \<Rightarrow> 'a \<Rightarrow> int) \<Rightarrow> 'a list \<Rightarrow> 'a list" where
  "Array_sort cmp xs = foldr (insert_by cmp) xs []"

text \<open>
  \<^verbatim>\<open>Object.values(rooms).filter((room) => room.floor === floor)
      .sort((a, b) => a.position - b.position)\<close>
\<close>

definition getRoomsForFloor :: "Session \<Rightarrow> int \<Rightarrow> RoomData list" where
  "getRoomsForFloor w fl =
     Array_sort (\<lambda>a b. position a - position b)
       (filter (\<lambda>room. floor room = fl) (Object_values (rooms w)))"

subsection \<open>Messages\<close>

text \<open>
  \<^verbatim>\<open>const showMessage = (msg, type = 'success') => {
      setMessage(msg); setMessageType(type); setTimeout(() => setMessage(''), 3000); }\<close>
\<close>

definition showMessage :: "string \<Rightarrow> kind \<Rightarrow> Session \<Rightarrow> Session" where
  "showMessage msg type w = setTimeout 3000 (setMessageType type (setMessage msg w))"

text \<open>\<^verbatim>\<open>error instanceof Error ? error.message : fallback\<close>\<close>

fun error_text :: "thrown \<Rightarrow> string \<Rightarrow> string" where
  "error_text (Error m) fallback = m"
| "error_text NotAnError fallback = fallback"

subsection \<open>Reading the number of rooms\<close>

text \<open>
  \<^verbatim>\<open>parseInt(string)\<close> with no radix, by the steps of the language specification:
  leading white space is dropped, then a sign, then \<^verbatim>\<open>0x\<close> or \<^verbatim>\<open>0X\<close> (which
  selects radix 16); the longest run of digits of the radix that follows is the number,
  and \<^verbatim>\<open>NaN\<close> (\<open>None\<close>) when that run is empty. What follows the digits is
  ignored. The white space is the code units below 256 that the language counts as such.
  The result here is the exact integer; JavaScript rounds a long run of digits to the
  nearest number it can represent, which changes no comparison with 1 or 5.
\<close>

definition StrWhiteSpaceChar :: "char \<Rightarrow> bool" where
  "StrWhiteSpaceChar c = ((of_char c :: nat) \<in> {9, 10, 11, 12, 13, 32, 160})"

definition digit_of :: "char \<Rightarrow> nat option" where
  "digit_of c =
     (let n = (of_char c :: nat) in
      if 48 \<le> n \<and> n \<le> 57 then Some (n - 48)
      else if 97 \<le> n \<and> n \<le> 122 then Some (n - 87)
      else if 65 \<le> n \<and> n \<le> 90 then Some (n - 55)
      else None)"

definition radix_digit :: "nat \<Rightarrow> char \<Rightarrow> bool" where
  "radix_digit R c = (case digit_of c of Some d \<Rightarrow> d < R | None \<Rightarrow> False)"

definition parseInt :: "string \<Rightarrow> int option" where
  "parseInt inputString =
     (let S = dropWhile StrWhiteSpaceChar inputString;
          sign = (if S \<noteq> [] \<and> hd S = CHR ''-'' then - 1 else (1 :: int));
          S = (if S \<noteq> [] \<and> (hd S = CHR ''+'' \<or> hd S = CHR ''-'') then tl S else S);
          hex = (take 2 S = ''0x'' \<or> take 2 S = ''0X'');
          R = (if hex then 16 else 10);
          S = (if hex then drop 2 S else S);
          Z = takeWhile (radix_digit R) S
      in if Z = [] then None
         else Some (sign * int (foldl (\<lambda>n c. n * R + the (digit_of c)) 0 Z)))"

subsection \<open>Asynchronous functions\<close>

text \<open>
  An \<^verbatim>\<open>async\<close> function runs without interruption up to an \<^verbatim>\<open>await\<close> of a
  request, and runs on, again without interruption, when the request settles. Each
  such function is modelled by its parts between the \<^verbatim>\<open>await\<close>s, each a function
  on the session: the part that starts the function sends the request; the part that
  follows an \<^verbatim>\<open>await\<close> takes what the request settled to. Between two parts the
  session may change (a timer fires, another handler runs); a function named after the
  source function composes the parts with nothing in between.
\<close>

text \<open>
  \<^verbatim>\<open>fetchRooms\<close>: \<^verbatim>\<open>try { setLoading(true); const response = await api.getRooms();\<close>
  \<^verbatim>\<open>setRooms(response.rooms); setStatistics({...}); }\<close>
  \<^verbatim>\<open>catch (error) { showMessage(error instanceof Error ? error.message :\<close>
  \<^verbatim>\<open>'Failed to fetch rooms', 'error'); } finally { setLoading(false); }\<close>
\<close>

definition fetchRooms_start :: "Session \<Rightarrow> Session" where
  "fetchRooms_start w = fetch GET_rooms (setLoading True w)"

definition fetchRooms_resume :: "RoomStateResponse settled \<Rightarrow> Session \<Rightarrow> Session" where
  "fetchRooms_resume reply w =
     setLoading False
       (case getRooms reply of
          Inr response \<Rightarrow>
            setStatistics
              \<lparr>total_rooms = RoomStateResponse.total_rooms response,
               available_rooms = RoomStateResponse.available_rooms response,
               booked_rooms = RoomStateResponse.booked_rooms response\<rparr>
              (setRooms (RoomStateResponse.rooms response) w)
        | Inl e \<Rightarrow> showMessage (error_text e ''Failed to fetch rooms'') error w)"

definition fetchRooms :: "RoomStateResponse settled \<Rightarrow> Session \<Rightarrow> Session" where
  "fetchRooms reply w = fetchRooms_resume reply (fetchRooms_start w)"

subsection \<open>Booking\<close>

text \<open>
  The interpolation \<^verbatim>\<open>${response.total_travel_time}\<close> of an optional number: the
  digits of the number, or \<^verbatim>\<open>undefined\<close> when the field is absent.
\<close>

fun interpolate :: "number option \<Rightarrow> string" where
  "interpolate None = ''undefined''"
| "interpolate (Some n) = Number_toString n"

text \<open>
  \<^verbatim>\<open>handleBook\<close>, first part: the validation, and for a valid number
  \<^verbatim>\<open>setLoading(true)\<close> and the request of \<^verbatim>\<open>api.bookRooms(num)\<close>. The result
  says whether the handler has returned (\<open>None\<close>) or awaits the booking of \<open>num\<close>
  rooms (\<open>Some num\<close>).
\<close>

definition handleBook_start :: "Session \<Rightarrow> Session \<times> int option" where
  "handleBook_start w =
     (case parseInt (numRooms w) of
        None \<Rightarrow> (showMessage ''Please enter a number between 1 and 5'' error w, None)
      | Some num \<Rightarrow>
          if num < 1 \<or> num > 5
          then (showMessage ''Please enter a number between 1 and 5'' error w, None)
          else (fetch (POST_book num None) (setLoading True w), Some num))"

text \<open>
  Second part, when \<^verbatim>\<open>api.bookRooms(num)\<close> has settled. On a response: the success
  message, then \<^verbatim>\<open>fetchRooms()\<close> up to its request; the handler awaits it holding
  \<open>response\<close>. On a thrown value: the \<^verbatim>\<open>catch\<close> and the \<^verbatim>\<open>finally\<close>, and the
  handler has returned.
\<close>

definition handleBook_booked ::
  "BookingResponse settled \<Rightarrow> Session \<Rightarrow> Session \<times> BookingResponse option" where
  "handleBook_booked reply w =
     (case bookRooms reply of
        Inr response \<Rightarrow>
          (fetchRooms_start
             (showMessage
                (BookingResponse.message response @ ''. Travel time: '' @
                 interpolate (total_travel_time response) @ '' minutes'')
                success w),
           Some response)
      | Inl e \<Rightarrow>
          (setLoading False (showMessage (error_text e ''Failed to book rooms'') error w),
           None))"

text \<open>
  Third part, when the request of \<^verbatim>\<open>fetchRooms()\<close> has settled: the rest of
  \<^verbatim>\<open>fetchRooms\<close> (which catches what it throws), then
  \<^verbatim>\<open>if (response.room_paths && response.room_paths.length > 0)\<close>
  \<^verbatim>\<open>{ setRoomPaths(response.room_paths); setShowPathDialog(true); }\<close>
  and the \<^verbatim>\<open>finally\<close>.
\<close>

definition handleBook_refetched ::
  "BookingResponse \<Rightarrow> RoomStateResponse settled \<Rightarrow> Session \<Rightarrow> Session" where
  "handleBook_refetched response reply w =
     setLoading False
       (let w' = fetchRooms_resume reply w in
        case room_paths response of
          None \<Rightarrow> w'
        | Some paths \<Rightarrow>
            if length paths > 0 then setShowPathDialog True (setRoomPaths paths w') else w')"

definition handleBook ::
  "BookingResponse settled \<Rightarrow> RoomStateResponse settled \<Rightarrow> Session \<Rightarrow> Session" where
  "handleBook booking refetch w =
     (case handleBook_start w of
        (w1, None) \<Rightarrow> w1
      | (w1, Some num) \<Rightarrow>
          (case handleBook_booked booking w1 of
             (w2, None) \<Rightarrow> w2
           | (w2, Some response) \<Rightarrow> handleBook_refetched response refetch w2))"

subsection \<open>Reset and random occupancy\<close>

text \<open>
  \<^verbatim>\<open>handleReset\<close>: \<^verbatim>\<open>try { setLoading(true); await api.resetBookings();\<close>
  \<^verbatim>\<open>showMessage('All bookings have been reset', 'success'); await fetchRooms(); }\<close>
  \<^verbatim>\<open>catch (error) { showMessage(error instanceof Error ? error.message :\<close>
  \<^verbatim>\<open>'Failed to reset bookings', 'error'); } finally { setLoading(false); }\<close>
  The second part says whether the handler awaits \<^verbatim>\<open>fetchRooms()\<close> (\<open>True\<close>) or
  has returned.
\<close>

definition handleReset_start :: "Session \<Rightarrow> Session" where
  "handleReset_start w = fetch POST_reset (setLoading True w)"

definition handleReset_answered :: "MessageResponse settled \<Rightarrow> Session \<Rightarrow> Session \<times> bool" where
  "handleReset_answered reply w =
     (case resetBookings reply of
        Inr _ \<Rightarrow> (fetchRooms_start (showMessage ''All bookings have been reset'' success w), True)
      | Inl e \<Rightarrow>
          (setLoading False (showMessage (error_text e ''Failed to reset bookings'') error w),
           False))"

definition handleReset_refetched :: "RoomStateResponse settled \<Rightarrow> Session \<Rightarrow> Session" where
  "handleReset_refetched reply w = setLoading False (fetchRooms_resume reply w)"

definition handleReset ::
  "MessageResponse settled \<Rightarrow> RoomStateResponse settled \<Rightarrow> Session \<Rightarrow> Session" where
  "handleReset answer refetch w =
     (case handleReset_answered answer (handleReset_start w) of
        (w2, False) \<Rightarrow> w2
      | (w2, True) \<Rightarrow> handleReset_refetched refetch w2)"

text \<open>
  \<^verbatim>\<open>handleRandom\<close>, the same shape, with \<^verbatim>\<open>const occupancyPercentage = 30\<close> and
  the message \<^verbatim>\<open>`Generated random occupancy (${occupancyPercentage}%)`\<close>.
\<close>

definition occupancyPercentage :: int where
  "occupancyPercentage = 30"

definition handleRandom_start :: "Session \<Rightarrow> Session" where
  "handleRandom_start w =
     fetch (POST_random_occupancy occupancyPercentage) (setLoading True w)"

definition handleRandom_answered :: "MessageResponse settled \<Rightarrow> Session \<Rightarrow> Session \<times> bool" where
  "handleRandom_answered reply w =
     (case generateRandomOccupancy reply of
        Inr _ \<Rightarrow>
          (fetchRooms_start
             (showMessage
                (''Generated random occupancy ('' @
                 Number_toString (Integer (Abs_safe_integer occupancyPercentage)) @ ''%)'')
                success w),
           True)
      | Inl e \<Rightarrow>
          (setLoading False
             (showMessage (error_text e ''Failed to generate random occupancy'') error w),
           False))"

definition handleRandom_refetched :: "RoomStateResponse settled \<Rightarrow> Session \<Rightarrow> Session" where
  "handleRandom_refetched reply w = setLoading False (fetchRooms_resume reply w)"

definition handleRandom ::
  "MessageResponse settled \<Rightarrow> RoomStateResponse settled \<Rightarrow> Session \<Rightarrow> Session" where
  "handleRandom answer refetch w =
     (case handleRandom_answered answer (handleRandom_start w) of
        (w2, False) \<Rightarrow> w2
      | (w2, True) \<Rightarrow> handleRandom_refetched refetch w2)"

subsection \<open>The triggers\<close>

text \<open>
  The three buttons carry \<^verbatim>\<open>disabled={loading}\<close> and their handler as
  \<^verbatim>\<open>onClick\<close>: a click on a disabled button runs no handler. The functions below
  are the first part of what a click starts.
\<close>

definition click_Book :: "Session \<Rightarrow> Session \<times> int option" where
  "click_Book w = (if loading w then (w, None) else handleBook_start w)"

definition click_Reset :: "Session \<Rightarrow> Session" where
  "click_Reset w = (if loading w then w else handleReset_start w)"

definition click_Random :: "Session \<Rightarrow> Session" where
  "click_Random w = (if loading w then w else handleRandom_start w)"


subsection \<open>Sample values\<close>

text \<open>
  A booking response (two rooms on floor 2, one path of two steps), a registry answer
  and a failed response, used where a statement below is tried at a concrete input.
\<close>

definition sample_booking :: BookingResponse where
  "sample_booking =
     \<lparr>BookingResponse.success = True, message = ''Booked 2 rooms'',
      booked_rooms = [203, 204], total_travel_time = Some (Integer (Abs_safe_integer 7)),
      room_paths =
        Some [\<lparr>RoomPathInfo.room_number = 203, floor = 2, position = 2, total_time = 7,
               steps = [''Take stairs to floor 2'', ''Walk to room 203'']\<rparr>]\<rparr>"

definition sample_state :: RoomStateResponse where
  "sample_state =
     \<lparr>RoomStateResponse.rooms =
        [(203, \<lparr>room_number = 203, floor = 2, position = 2, status = booked,
                guest_id = None\<rparr>),
         (204, \<lparr>room_number = 204, floor = 2, position = 3, status = booked,
                guest_id = None\<rparr>)],
      total_rooms = 97, available_rooms = 95, booked_rooms = 2\<rparr>"

definition sample_answer :: MessageResponse where
  "sample_answer = \<lparr>MessageResponse.success = True, message = ''done''\<rparr>"

definition sample_failure :: json where
  "sample_failure = JObj [(''detail'', JStr ''Not enough rooms available'')]"

text \<open>A registry whose key order is not the order of positions.\<close>

definition sample_rooms :: "RoomData obj" where
  "sample_rooms =
     [(301, \<lparr>room_number = 301, floor = 3, position = 5, status = booked,
             guest_id = Some ''g1''\<rparr>),
      (302, \<lparr>room_number = 302, floor = 3, position = 2, status = available,
             guest_id = None\<rparr>),
      (401, \<lparr>room_number = 401, floor = 4, position = 0, status = available,
             guest_id = None\<rparr>)]"

section \<open>Properties\<close>

subsection \<open>What each part reads and writes\<close>

lemmas setters =
  setRooms_def setLoading_def setMessage_def setMessageType_def setStatistics_def
  setShowPathDialog_def setRoomPaths_def setTimeout_def fetch_def

lemma showMessage_fields:
  "message (showMessage msg type w) = msg"
  "messageType (showMessage msg type w) = type"
  "loading (showMessage msg type w) = loading w"
  "rooms (showMessage msg type w) = rooms w"
  "showPathDialog (showMessage msg type w) = showPathDialog w"
  "roomPaths (showMessage msg type w) = roomPaths w"
  "sent (showMessage msg type w) = sent w"
  "timeouts (showMessage msg type w) = timeouts w @ [now w + 3000]"
  "now (showMessage msg type w) = now w"
  by (simp_all add: showMessage_def setters)

lemma fetchRooms_start_fields:
  "message (fetchRooms_start w) = message w"
  "messageType (fetchRooms_start w) = messageType w"
  "loading (fetchRooms_start w) = True"
  "rooms (fetchRooms_start w) = rooms w"
  "showPathDialog (fetchRooms_start w) = showPathDialog w"
  "roomPaths (fetchRooms_start w) = roomPaths w"
  "sent (fetchRooms_start w) = sent w @ [GET_rooms]"
  "timeouts (fetchRooms_start w) = timeouts w"
  by (simp_all add: fetchRooms_start_def setters)

lemma fetchRooms_resume_fields:
  "loading (fetchRooms_resume reply w) = False"
  "showPathDialog (fetchRooms_resume reply w) = showPathDialog w"
  "roomPaths (fetchRooms_resume reply w) = roomPaths w"
  "sent (fetchRooms_resume reply w) = sent w"
  by (simp_all add: fetchRooms_resume_def setters showMessage_fields split: sum.split)

lemma fetchRooms_resume_message:
  "getRooms reply = Inr response \<Longrightarrow> message (fetchRooms_resume reply w) = message w"
  "getRooms reply = Inr response \<Longrightarrow> messageType (fetchRooms_resume reply w) = messageType w"
  by (simp_all add: fetchRooms_resume_def setters)

lemma handleBook_start_invalid:
  assumes "parseInt (numRooms w) = None \<or>
           (\<exists>num. parseInt (numRooms w) = Some num \<and> (num < 1 \<or> 5 < num))"
  shows "handleBook_start w =
           (showMessage ''Please enter a number between 1 and 5'' error w, None)"
  using assms by (auto simp: handleBook_start_def)

lemma handleBook_start_valid:
  assumes "parseInt (numRooms w) = Some num" "1 \<le> num" "num \<le> 5"
  shows "handleBook_start w = (fetch (POST_book num None) (setLoading True w), Some num)"
  using assms by (auto simp: handleBook_start_def)

lemmas parseInt_unfold =
  parseInt_def StrWhiteSpaceChar_def radix_digit_def digit_of_def Let_def

lemma parseInt_examples:
  "parseInt ''0'' = Some 0" "parseInt ''6'' = Some 6" "parseInt ''-1'' = Some (- 1)"
  "parseInt ''abc'' = None" "parseInt ''1'' = Some 1" "parseInt ''2'' = Some 2"
  by (simp_all add: parseInt_unfold)

lemma handleBook_booked_success:
  assumes "bookRooms reply = Inr response"
  shows "handleBook_booked reply w =
           (fetchRooms_start
              (showMessage
                 (BookingResponse.message response @ ''. Travel time: '' @
                  interpolate (total_travel_time response) @ '' minutes'')
                 success w),
            Some response)"
  using assms by (simp add: handleBook_booked_def)

lemma handleBook_booked_failure:
  assumes "bookRooms reply = Inl e"
  shows "handleBook_booked reply w =
           (setLoading False (showMessage (error_text e ''Failed to book rooms'') error w),
            None)"
  using assms by (simp add: handleBook_booked_def)

lemma handleBook_refetched_fields:
  "loading (handleBook_refetched response reply w) = False"
  "sent (handleBook_refetched response reply w) = sent w"
  by (simp_all add: handleBook_refetched_def Let_def setters fetchRooms_resume_fields
        split: option.split)

lemma handleBook_refetched_dialog:
  assumes "room_paths response = Some paths" "paths \<noteq> []"
  shows "showPathDialog (handleBook_refetched response reply w) = True"
    and "roomPaths (handleBook_refetched response reply w) = paths"
  using assms by (simp_all add: handleBook_refetched_def Let_def setters)

lemma handleBook_refetched_message:
  assumes "getRooms reply = Inr state"
  shows "message (handleBook_refetched response reply w) = message w"
    and "messageType (handleBook_refetched response reply w) = messageType w"
  using assms
  by (simp_all add: handleBook_refetched_def Let_def setters fetchRooms_resume_message
        split: option.split)

lemma handleBook_valid:
  assumes "parseInt (numRooms w) = Some num" "1 \<le> num" "num \<le> 5"
  shows "handleBook booking refetch w =
           (case handleBook_booked booking (fetch (POST_book num None) (setLoading True w)) of
              (w2, None) \<Rightarrow> w2
            | (w2, Some response) \<Rightarrow> handleBook_refetched response refetch w2)"
  using assms by (simp add: handleBook_def handleBook_start_valid)

lemma handleReset_parts:
  "loading (handleReset_start w) = True"
  "sent (handleReset_start w) = sent w @ [POST_reset]"
  "showPathDialog (handleReset_start w) = showPathDialog w"
  "roomPaths (handleReset_start w) = roomPaths w"
  "loading (handleReset_refetched reply w) = False"
  "showPathDialog (handleReset_refetched reply w) = showPathDialog w"
  "roomPaths (handleReset_refetched reply w) = roomPaths w"
  "showPathDialog (fst (handleReset_answered answer w)) = showPathDialog w"
  "roomPaths (fst (handleReset_answered answer w)) = roomPaths w"
  by (simp_all add: handleReset_start_def handleReset_refetched_def handleReset_answered_def
        setters fetchRooms_resume_fields fetchRooms_start_fields showMessage_fields
        split: sum.split)

lemma handleRandom_parts:
  "loading (handleRandom_start w) = True"
  "sent (handleRandom_start w) = sent w @ [POST_random_occupancy 30]"
  "showPathDialog (handleRandom_start w) = showPathDialog w"
  "roomPaths (handleRandom_start w) = roomPaths w"
  "loading (handleRandom_refetched reply w) = False"
  "showPathDialog (handleRandom_refetched reply w) = showPathDialog w"
  "roomPaths (handleRandom_refetched reply w) = roomPaths w"
  "showPathDialog (fst (handleRandom_answered answer w)) = showPathDialog w"
  "roomPaths (fst (handleRandom_answered answer w)) = roomPaths w"
  by (simp_all add: handleRandom_start_def handleRandom_refetched_def
        handleRandom_answered_def occupancyPercentage_def
        setters fetchRooms_resume_fields fetchRooms_start_fields showMessage_fields
        split: sum.split)

lemma returned_not_loading:
  "\<not> snd (handleReset_answered answer w) \<Longrightarrow>
     \<not> loading (fst (handleReset_answered answer w))"
  "\<not> snd (handleRandom_answered answer w) \<Longrightarrow>
     \<not> loading (fst (handleRandom_answered answer w))"
  "snd (handleBook_booked booking w) = None \<Longrightarrow>
     \<not> loading (fst (handleBook_booked booking w))"
  by (auto simp: handleReset_answered_def handleRandom_answered_def handleBook_booked_def
        setters split: sum.splits)

lemma handleReset_fields:
  "loading (handleReset answer refetch w) = False"
  "showPathDialog (handleReset answer refetch w) = showPathDialog w"
  "roomPaths (handleReset answer refetch w) = roomPaths w"
  by (simp_all add: handleReset_def handleReset_answered_def handleReset_parts
        setters fetchRooms_start_fields showMessage_fields split: sum.split)

lemma handleRandom_fields:
  "loading (handleRandom answer refetch w) = False"
  "showPathDialog (handleRandom answer refetch w) = showPathDialog w"
  "roomPaths (handleRandom answer refetch w) = roomPaths w"
  by (simp_all add: handleRandom_def handleRandom_answered_def handleRandom_parts
        setters fetchRooms_start_fields showMessage_fields split: sum.split)

lemma sample_values:
  "bookRooms (Resolved (Ok (Inr sample_booking))) = Inr sample_booking"
  "bookRooms (Resolved (NotOk (Inr sample_failure))) =
     Inl (Error ''Not enough rooms available'')"
  "getRooms (Resolved (Ok (Inr sample_state))) = Inr sample_state"
  "room_paths sample_booking =
     Some [\<lparr>RoomPathInfo.room_number = 203, floor = 2, position = 2, total_time = 7,
            steps = [''Take stairs to floor 2'', ''Walk to room 203'']\<rparr>]"
  "BookingResponse.message sample_booking = ''Booked 2 rooms''"
  "total_travel_time sample_booking = Some (Integer (Abs_safe_integer 7))"
  by (simp_all add: sample_booking_def sample_failure_def)

lemma initial_fields:
  "numRooms initial = ''1''" "loading initial = False" "message initial = []"
  "showPathDialog initial = False" "roomPaths initial = []" "sent initial = []"
  "timeouts initial = []" "now initial = 0" "rooms initial = []"
  by (simp_all add: initial_def)

lemma decimal_digits:
  "map decimal [0, 1, 2, 3, 4, 5, 6, 7, 8, 9] =
     map (\<lambda>c. [c]) ''0123456789''"
  by (simp add: decimal.simps digit_char_def)

lemma decimal_step: "10 \<le> n \<Longrightarrow> decimal n = decimal (n div 10) @ decimal (n mod 10)"
  by (subst decimal.simps) (simp add: decimal.simps [of "n mod 10"])

lemma decimal_examples: "decimal 12 = ''12''" "decimal 120 = ''120''" "decimal 30 = ''30''"
  by (simp_all add: decimal.simps digit_char_def)

lemma safe_integer_range:
  "- 9007199254740991 \<le> Rep_safe_integer i" "Rep_safe_integer i \<le> 9007199254740991"
  using Rep_safe_integer [of i] by simp_all

lemma safe_integer_bounds:
  "Rep_safe_integer (Abs_safe_integer 9007199254740991) = 9007199254740991"
  "Rep_safe_integer (Abs_safe_integer (- 9007199254740991)) = - 9007199254740991"
  by (simp_all add: Abs_safe_integer_inverse)

lemma parseInt_prefixes:
  "parseInt ''5.9'' = Some 5" "parseInt ''3abc'' = Some 3" "parseInt ''1e3'' = Some 1"
  "parseInt '' 4'' = Some 4" "parseInt ''+2'' = Some 2" "parseInt ''0x5'' = Some 5"
  "parseInt ''-0X1f'' = Some (- 31)" "parseInt ''010'' = Some 10"
  "parseInt [] = None" "parseInt ''-'' = None" "parseInt ''0x'' = None" "parseInt ''- 3'' = None"
  "parseInt ''.5'' = None"
  by (simp_all add: parseInt_unfold)

subsection \<open>Validation of the number of rooms\<close>

text \<open>
  C3, as the claim states it, fails: \<^verbatim>\<open>parseInt\<close> reads the integer an input starts
  with and ignores what follows it. The input \<^verbatim>\<open>"5.9"\<close>, which is not an integer,
  is read as 5: no message is set, \<open>loading\<close> is set and the booking of 5 rooms is
  requested. \<^verbatim>\<open>"3abc"\<close> is booked as 3 and \<^verbatim>\<open>"1e3"\<close>, which is 1000, as 1.
\<close>

theorem handleBook_books_leading_integer:
  "parseInt ''5.9'' = Some 5
   \<and> handleBook_start (initial\<lparr>numRooms := ''5.9''\<rparr>) =
       (fetch (POST_book 5 None) (setLoading True (initial\<lparr>numRooms := ''5.9''\<rparr>)), Some 5)
   \<and> sent (fst (handleBook_start (initial\<lparr>numRooms := ''5.9''\<rparr>))) = [POST_book 5 None]
   \<and> loading (fst (handleBook_start (initial\<lparr>numRooms := ''5.9''\<rparr>)))
   \<and> message (fst (handleBook_start (initial\<lparr>numRooms := ''5.9''\<rparr>))) = []
   \<and> sent (fst (handleBook_start (initial\<lparr>numRooms := ''3abc''\<rparr>))) = [POST_book 3 None]
   \<and> sent (fst (handleBook_start (initial\<lparr>numRooms := ''1e3''\<rparr>))) = [POST_book 1 None]"
  by (simp add: handleBook_start_def parseInt_prefixes setters initial_def)

text \<open>
  C3, amended. The number of rooms is what \<^verbatim>\<open>parseInt\<close> reads: the integer the
  input starts with, after white space and a sign, whatever follows it. When the input
  starts with no integer (\<^verbatim>\<open>parseInt\<close> gives \<^verbatim>\<open>NaN\<close>), or with an integer below 1
  or above 5, \<^verbatim>\<open>handleBook\<close> is exactly
  \<^verbatim>\<open>showMessage('Please enter a number between 1 and 5', 'error')\<close>: the handler
  returns in its first part, \<open>loading\<close> is not touched and no request is sent,
  whatever the service would have answered. The inputs \<^verbatim>\<open>"0"\<close>, \<^verbatim>\<open>"6"\<close>,
  \<^verbatim>\<open>"-1"\<close> and \<^verbatim>\<open>"abc"\<close> are among them. When the input starts with an integer
  from 1 to 5, the handler sets \<open>loading\<close> and requests the booking of that many
  rooms.
\<close>

theorem handleBook_rejects_invalid_input:
  "(parseInt (numRooms w) = None
     \<or> (\<exists>num. parseInt (numRooms w) = Some num \<and> (num < 1 \<or> 5 < num))
     \<or> numRooms w \<in> {''0'', ''6'', ''-1'', ''abc''} \<longrightarrow>
     handleBook_start w =
       (showMessage ''Please enter a number between 1 and 5'' error w, None)
     \<and> handleBook booking refetch w =
         showMessage ''Please enter a number between 1 and 5'' error w
     \<and> message (handleBook booking refetch w) = ''Please enter a number between 1 and 5''
     \<and> messageType (handleBook booking refetch w) = error
     \<and> loading (handleBook booking refetch w) = loading w
     \<and> sent (handleBook booking refetch w) = sent w)
   \<and> (parseInt (numRooms w) = Some n \<and> 1 \<le> n \<and> n \<le> 5 \<longrightarrow>
        handleBook_start w = (fetch (POST_book n None) (setLoading True w), Some n))
   \<and> parseInt ''5.9'' = Some 5 \<and> parseInt ''3abc'' = Some 3 \<and> parseInt ''1e3'' = Some 1
   \<and> parseInt '' 4'' = Some 4 \<and> parseInt ''+2'' = Some 2 \<and> parseInt ''0x5'' = Some 5
   \<and> parseInt ''-0X1f'' = Some (- 31) \<and> parseInt ''010'' = Some 10
   \<and> parseInt [] = None \<and> parseInt ''-'' = None \<and> parseInt ''0x'' = None
   \<and> parseInt ''- 3'' = None \<and> parseInt ''.5'' = None"
proof -
  have rejected: "handleBook_start w =
       (showMessage ''Please enter a number between 1 and 5'' error w, None)
     \<and> handleBook booking refetch w =
         showMessage ''Please enter a number between 1 and 5'' error w
     \<and> message (handleBook booking refetch w) = ''Please enter a number between 1 and 5''
     \<and> messageType (handleBook booking refetch w) = error
     \<and> loading (handleBook booking refetch w) = loading w
     \<and> sent (handleBook booking refetch w) = sent w"
    if a: "parseInt (numRooms w) = None
     \<or> (\<exists>num. parseInt (numRooms w) = Some num \<and> (num < 1 \<or> 5 < num))
     \<or> numRooms w \<in> {''0'', ''6'', ''-1'', ''abc''}"
  proof -
    have "parseInt (numRooms w) = None \<or>
          (\<exists>num. parseInt (numRooms w) = Some num \<and> (num < 1 \<or> 5 < num))"
      using a parseInt_examples by auto
    then have s: "handleBook_start w =
        (showMessage ''Please enter a number between 1 and 5'' error w, None)"
      by (rule handleBook_start_invalid)
    then have h: "handleBook booking refetch w =
        showMessage ''Please enter a number between 1 and 5'' error w"
      by (simp add: handleBook_def)
    show ?thesis using s h by (simp add: showMessage_fields)
  qed
  have accepted: "handleBook_start w = (fetch (POST_book n None) (setLoading True w), Some n)"
    if "parseInt (numRooms w) = Some n \<and> 1 \<le> n \<and> n \<le> 5"
    using that by (simp add: handleBook_start_valid)
  show ?thesis
    using rejected accepted parseInt_prefixes by blast
qed

theorem handleBook_rejects_invalid_input_witness:
  "parseInt ''6'' = Some 6
   \<and> sent (handleBook (Resolved (Ok (Inr sample_booking))) (Resolved (Ok (Inr sample_state)))
            (initial\<lparr>numRooms := ''6''\<rparr>)) = []
   \<and> loading (handleBook (Resolved (Ok (Inr sample_booking)))
                (Resolved (Ok (Inr sample_state))) (initial\<lparr>numRooms := ''6''\<rparr>)) = False
   \<and> message (handleBook (Resolved (Ok (Inr sample_booking)))
                (Resolved (Ok (Inr sample_state))) (initial\<lparr>numRooms := ''6''\<rparr>)) =
       ''Please enter a number between 1 and 5''
   \<and> parseInt ''2'' = Some 2
   \<and> sent (fst (handleBook_start (initial\<lparr>numRooms := ''2''\<rparr>))) = [POST_book 2 None]"
proof -
  let ?w = "initial\<lparr>numRooms := ''6''\<rparr>"
  let ?v = "initial\<lparr>numRooms := ''2''\<rparr>"
  have p: "parseInt ''6'' = Some 6" "parseInt ''2'' = Some 2"
    by (simp_all add: parseInt_examples)
  have bad: "parseInt (numRooms ?w) = None
     \<or> (\<exists>num. parseInt (numRooms ?w) = Some num \<and> (num < 1 \<or> 5 < num))
     \<or> numRooms ?w \<in> {''0'', ''6'', ''-1'', ''abc''}"
    by (simp add: p)
  have good: "parseInt (numRooms ?v) = Some 2 \<and> (1 :: int) \<le> 2 \<and> (2 :: int) \<le> 5"
    by (simp add: p)
  from handleBook_rejects_invalid_input
         [where w = ?w and booking = "Resolved (Ok (Inr sample_booking))"
            and refetch = "Resolved (Ok (Inr sample_state))"] bad
  have "sent (handleBook (Resolved (Ok (Inr sample_booking)))
               (Resolved (Ok (Inr sample_state))) ?w) = sent ?w"
    and "loading (handleBook (Resolved (Ok (Inr sample_booking)))
               (Resolved (Ok (Inr sample_state))) ?w) = loading ?w"
    and "message (handleBook (Resolved (Ok (Inr sample_booking)))
               (Resolved (Ok (Inr sample_state))) ?w) =
         ''Please enter a number between 1 and 5''"
    by blast+
  moreover from handleBook_rejects_invalid_input [where w = ?v and n = 2] good
  have "handleBook_start ?v = (fetch (POST_book 2 None) (setLoading True ?v), Some 2)"
    by blast
  then have "sent (fst (handleBook_start ?v)) = [POST_book 2 None]"
    by (simp add: setters initial_fields)
  moreover have "sent ?w = []" and "loading ?w = False"
    by (simp_all add: initial_def)
  ultimately show ?thesis
    using p by simp
qed

subsection \<open>The busy flag\<close>

text \<open>
  C8. \<^verbatim>\<open>handleReset\<close>, \<^verbatim>\<open>handleRandom\<close> and, for a valid number of rooms,
  \<^verbatim>\<open>handleBook\<close> set \<open>loading\<close> in their first part, and \<open>loading\<close> is false
  when they have returned, whatever the service answered. The same holds part by part,
  in whatever session a later part runs: a part in which a handler returns leaves
  \<open>loading\<close> false.
\<close>

theorem actions_set_loading_and_clear_it:
  "loading (handleReset_start w)
   \<and> \<not> loading (handleReset answer refetch w)
   \<and> loading (handleRandom_start w)
   \<and> \<not> loading (handleRandom answer refetch w)
   \<and> (parseInt (numRooms w) = Some num \<and> 1 \<le> num \<and> num \<le> 5 \<longrightarrow>
        loading (fst (handleBook_start w)) \<and> \<not> loading (handleBook booking refetch w))
   \<and> (snd (handleBook_booked booking w') = None \<longrightarrow>
        \<not> loading (fst (handleBook_booked booking w')))
   \<and> \<not> loading (handleBook_refetched response refetch w')
   \<and> (\<not> snd (handleReset_answered answer w') \<longrightarrow>
        \<not> loading (fst (handleReset_answered answer w')))
   \<and> \<not> loading (handleReset_refetched refetch w')
   \<and> (\<not> snd (handleRandom_answered answer w') \<longrightarrow>
        \<not> loading (fst (handleRandom_answered answer w')))
   \<and> \<not> loading (handleRandom_refetched refetch w')"
proof -
  have book: "loading (fst (handleBook_start w)) \<and> \<not> loading (handleBook booking refetch w)"
    if "parseInt (numRooms w) = Some num" "1 \<le> num" "num \<le> 5"
    using that
    by (auto simp: handleBook_valid handleBook_start_valid handleBook_booked_def
          handleBook_refetched_fields setters showMessage_fields split: sum.split)
  show ?thesis
    using book
    by (simp add: handleReset_parts handleReset_fields handleRandom_parts handleRandom_fields
          handleBook_refetched_fields returned_not_loading)
qed

theorem actions_set_loading_and_clear_it_witness:
  "parseInt (numRooms (initial\<lparr>numRooms := ''2''\<rparr>)) = Some 2
   \<and> loading (fst (handleBook_start (initial\<lparr>numRooms := ''2''\<rparr>)))
   \<and> \<not> loading (handleBook (Resolved (NotOk (Inr sample_failure)))
                  (Resolved (Ok (Inr sample_state))) (initial\<lparr>numRooms := ''2''\<rparr>))
   \<and> snd (handleBook_booked (Resolved (NotOk (Inr sample_failure))) initial) = None
   \<and> \<not> loading (fst (handleBook_booked (Resolved (NotOk (Inr sample_failure))) initial))
   \<and> \<not> loading (handleReset (Rejected NotAnError) (Resolved (Ok (Inr sample_state))) initial)"
proof -
  let ?w = "initial\<lparr>numRooms := ''2''\<rparr>"
  have p: "parseInt (numRooms ?w) = Some 2"
    by (simp add: parseInt_examples)
  have r: "snd (handleBook_booked (Resolved (NotOk (Inr sample_failure))) initial) = None"
    by (simp add: handleBook_booked_failure [OF sample_values(2)])
  show ?thesis
    using p r
      actions_set_loading_and_clear_it
        [where w = ?w and num = 2 and booking = "Resolved (NotOk (Inr sample_failure))"
           and refetch = "Resolved (Ok (Inr sample_state))" and w' = initial]
      actions_set_loading_and_clear_it
        [where w = initial and answer = "Rejected NotAnError"
           and refetch = "Resolved (Ok (Inr sample_state))"]
    by simp
qed

subsection \<open>The path dialog\<close>

text \<open>
  C4. When \<^verbatim>\<open>api.bookRooms\<close> returns a response whose \<^verbatim>\<open>room_paths\<close> is present
  and not empty, \<^verbatim>\<open>handleBook\<close> ends with the dialog shown and \<open>roomPaths\<close> equal
  to that sequence, whatever the dialog held before and whatever the refetch gave.
  When the booking fails (the input is rejected, or \<^verbatim>\<open>api.bookRooms\<close> throws), and
  in \<^verbatim>\<open>handleReset\<close> and \<^verbatim>\<open>handleRandom\<close>, \<open>showPathDialog\<close> and \<open>roomPaths\<close>
  are what they were.
\<close>

theorem dialog_opens_on_booked_paths_only:
  "(parseInt (numRooms w) = Some num \<and> 1 \<le> num \<and> num \<le> 5
      \<and> bookRooms booking = Inr response
      \<and> room_paths response = Some paths \<and> paths \<noteq> [] \<longrightarrow>
      showPathDialog (handleBook booking refetch w)
      \<and> roomPaths (handleBook booking refetch w) = paths)
   \<and> ((parseInt (numRooms w) = None
        \<or> (\<exists>n. parseInt (numRooms w) = Some n \<and> (n < 1 \<or> 5 < n))
        \<or> (\<exists>e. bookRooms booking = Inl e)) \<longrightarrow>
      showPathDialog (handleBook booking refetch w) = showPathDialog w
      \<and> roomPaths (handleBook booking refetch w) = roomPaths w)
   \<and> showPathDialog (handleReset answer refetch w) = showPathDialog w
   \<and> roomPaths (handleReset answer refetch w) = roomPaths w
   \<and> showPathDialog (handleRandom answer refetch w) = showPathDialog w
   \<and> roomPaths (handleRandom answer refetch w) = roomPaths w"
proof -
  have opened: "showPathDialog (handleBook booking refetch w)
      \<and> roomPaths (handleBook booking refetch w) = paths"
    if "parseInt (numRooms w) = Some num" "1 \<le> num" "num \<le> 5"
       "bookRooms booking = Inr response" "room_paths response = Some paths" "paths \<noteq> []"
    using that
    by (simp add: handleBook_valid handleBook_booked_success handleBook_refetched_dialog)
  have untouched: "showPathDialog (handleBook booking refetch w) = showPathDialog w
      \<and> roomPaths (handleBook booking refetch w) = roomPaths w"
    if failed: "parseInt (numRooms w) = None
        \<or> (\<exists>n. parseInt (numRooms w) = Some n \<and> (n < 1 \<or> 5 < n))
        \<or> (\<exists>e. bookRooms booking = Inl e)"
  proof (cases "parseInt (numRooms w) = None
        \<or> (\<exists>n. parseInt (numRooms w) = Some n \<and> (n < 1 \<or> 5 < n))")
    case True
    then show ?thesis
      by (simp add: handleBook_def handleBook_start_invalid showMessage_fields)
  next
    case False
    then obtain n where n: "parseInt (numRooms w) = Some n" "1 \<le> n" "n \<le> 5"
      by (cases "parseInt (numRooms w)") auto
    from False failed obtain e where e: "bookRooms booking = Inl e"
      by blast
    show ?thesis
      by (simp add: handleBook_valid [OF n] handleBook_booked_failure [OF e] setters
            showMessage_fields)
  qed
  show ?thesis
    using opened untouched by (simp add: handleReset_fields handleRandom_fields)
qed

theorem dialog_opens_on_booked_paths_only_witness:
  "parseInt ''2'' = Some 2
   \<and> bookRooms (Resolved (Ok (Inr sample_booking))) = Inr sample_booking
   \<and> roomPaths (handleBook (Resolved (Ok (Inr sample_booking))) (Rejected NotAnError)
                  (initial\<lparr>numRooms := ''2'',
                     roomPaths := [\<lparr>RoomPathInfo.room_number = 101, floor = 1, position = 0,
                                    total_time = 1, steps = []\<rparr>]\<rparr>)) =
       [\<lparr>RoomPathInfo.room_number = 203, floor = 2, position = 2, total_time = 7,
          steps = [''Take stairs to floor 2'', ''Walk to room 203'']\<rparr>]
   \<and> showPathDialog (handleBook (Resolved (Ok (Inr sample_booking))) (Rejected NotAnError)
                  (initial\<lparr>numRooms := ''2'',
                     roomPaths := [\<lparr>RoomPathInfo.room_number = 101, floor = 1, position = 0,
                                    total_time = 1, steps = []\<rparr>]\<rparr>))
   \<and> bookRooms (Resolved (NotOk (Inr sample_failure))) =
       Inl (Error ''Not enough rooms available'')
   \<and> roomPaths (handleBook (Resolved (NotOk (Inr sample_failure))) (Rejected NotAnError)
                  (initial\<lparr>numRooms := ''2''\<rparr>)) = []
   \<and> showPathDialog (handleBook (Resolved (NotOk (Inr sample_failure))) (Rejected NotAnError)
                  (initial\<lparr>numRooms := ''2''\<rparr>)) = False"
proof -
  let ?old = "\<lparr>RoomPathInfo.room_number = 101, floor = 1, position = 0,
               total_time = 1, steps = []\<rparr>"
  let ?w = "initial\<lparr>numRooms := ''2'', roomPaths := [?old]\<rparr>"
  let ?v = "initial\<lparr>numRooms := ''2''\<rparr>"
  have p: "parseInt (numRooms ?w) = Some 2" "parseInt (numRooms ?v) = Some 2"
    "parseInt ''2'' = Some 2"
    by (simp_all add: parseInt_examples)
  have v: "roomPaths ?v = []" "showPathDialog ?v = False"
    by (simp_all add: initial_fields)
  show ?thesis
    using p v sample_values(1,2,4)
      dialog_opens_on_booked_paths_only
        [where w = ?w and num = 2 and booking = "Resolved (Ok (Inr sample_booking))"
           and response = sample_booking and refetch = "Rejected NotAnError"
           and paths = "[\<lparr>RoomPathInfo.room_number = 203, floor = 2, position = 2,
                  total_time = 7,
                  steps = [''Take stairs to floor 2'', ''Walk to room 203'']\<rparr>]"]
      dialog_opens_on_booked_paths_only
        [where w = ?v and booking = "Resolved (NotOk (Inr sample_failure))"
           and refetch = "Rejected NotAnError"]
    by simp
qed

subsection \<open>The message of a successful booking\<close>

text \<open>
  C6. For a valid number of rooms the first part of \<^verbatim>\<open>handleBook\<close> sends the
  booking request and nothing else. When \<^verbatim>\<open>api.bookRooms\<close> returns \<open>response\<close>,
  the part that runs on it sets the message to
  \<^verbatim>\<open>`${response.message}. Travel time: ${response.total_travel_time} minutes`\<close> with
  kind \<^verbatim>\<open>'success'\<close> and then sends the request for the rooms: the refetch is sent
  by the part that has the booking response in hand, after the booking request and
  never before. When the refetch succeeds too, this is the message at the end of the
  handler. The travel time in the message is: for a safe integer its decimal digits,
  most significant first, after a minus sign when it is negative; for any other number
  the text JavaScript prints for it; \<^verbatim>\<open>undefined\<close> when the field is absent. The
  last five conjuncts fix the digits and the range of the safe integers.
\<close>

theorem booking_success_message_then_refetch:
  "parseInt (numRooms w) = Some num \<and> 1 \<le> num \<and> num \<le> 5
     \<and> bookRooms booking = Inr response \<Longrightarrow>
   sent (fst (handleBook_start w)) = sent w @ [POST_book num None]
   \<and> snd (handleBook_start w) = Some num
   \<and> message (fst (handleBook_booked booking w')) =
       BookingResponse.message response @ ''. Travel time: '' @
       (case total_travel_time response of
          None \<Rightarrow> ''undefined''
        | Some (Other rendering) \<Rightarrow> rendering
        | Some (Integer i) \<Rightarrow>
            if Rep_safe_integer i < 0 then CHR ''-'' # decimal (nat (- Rep_safe_integer i))
            else decimal (nat (Rep_safe_integer i))) @
       '' minutes''
   \<and> messageType (fst (handleBook_booked booking w')) = success
   \<and> sent (fst (handleBook_booked booking w')) = sent w' @ [GET_rooms]
   \<and> snd (handleBook_booked booking w') = Some response
   \<and> sent (handleBook booking refetch w) = sent w @ [POST_book num None, GET_rooms]
   \<and> (\<forall>state. getRooms refetch = Inr state \<longrightarrow>
        message (handleBook booking refetch w) = message (fst (handleBook_booked booking w'))
        \<and> messageType (handleBook booking refetch w) = success)
   \<and> map decimal [0, 1, 2, 3, 4, 5, 6, 7, 8, 9] =
       map (\<lambda>c. [c]) ''0123456789''
   \<and> (10 \<le> n \<longrightarrow> decimal n = decimal (n div 10) @ decimal (n mod 10))
   \<and> - 9007199254740991 \<le> Rep_safe_integer j \<and> Rep_safe_integer j \<le> 9007199254740991
   \<and> Rep_safe_integer (Abs_safe_integer 9007199254740991) = 9007199254740991
   \<and> Rep_safe_integer (Abs_safe_integer (- 9007199254740991)) = - 9007199254740991"
proof -
  assume a: "parseInt (numRooms w) = Some num \<and> 1 \<le> num \<and> num \<le> 5
     \<and> bookRooms booking = Inr response"
  have shown: "interpolate (total_travel_time response) =
       (case total_travel_time response of
          None \<Rightarrow> ''undefined''
        | Some (Other rendering) \<Rightarrow> rendering
        | Some (Integer i) \<Rightarrow>
            if Rep_safe_integer i < 0 then CHR ''-'' # decimal (nat (- Rep_safe_integer i))
            else decimal (nat (Rep_safe_integer i)))"
    by (simp split: option.split number.split)
  have booked: "message (fst (handleBook_booked booking v)) =
       BookingResponse.message response @ ''. Travel time: '' @
       interpolate (total_travel_time response) @ '' minutes''"
    "messageType (fst (handleBook_booked booking v)) = success"
    "sent (fst (handleBook_booked booking v)) = sent v @ [GET_rooms]"
    "snd (handleBook_booked booking v) = Some response" for v
    using a by (simp_all add: handleBook_booked_success fetchRooms_start_fields showMessage_fields)
  have start: "sent (fst (handleBook_start w)) = sent w @ [POST_book num None]"
    "snd (handleBook_start w) = Some num"
    using a by (simp_all add: handleBook_start_valid setters)
  have whole: "sent (handleBook booking refetch w) = sent w @ [POST_book num None, GET_rooms]"
    using a
    by (simp add: handleBook_valid handleBook_booked_success handleBook_refetched_fields
          fetchRooms_start_fields showMessage_fields setters)
  have final: "message (handleBook booking refetch w) = message (fst (handleBook_booked booking w'))
        \<and> messageType (handleBook booking refetch w) = success"
    if "getRooms refetch = Inr state" for state
    using a that
    by (simp add: handleBook_valid handleBook_booked_success handleBook_refetched_message
          fetchRooms_start_fields showMessage_fields)
  show ?thesis
    using booked [of w'] start whole final decimal_digits decimal_step [of n]
      safe_integer_range [of j] safe_integer_bounds
    unfolding shown by blast
qed

theorem booking_success_message_then_refetch_witness:
  "parseInt ''2'' = Some 2
   \<and> bookRooms (Resolved (Ok (Inr sample_booking))) = Inr sample_booking
   \<and> getRooms (Resolved (Ok (Inr sample_state))) = Inr sample_state
   \<and> message (fst (handleBook_booked (Resolved (Ok (Inr sample_booking)))
                     (fst (handleBook_start (initial\<lparr>numRooms := ''2''\<rparr>))))) =
       ''Booked 2 rooms. Travel time: 7 minutes''
   \<and> sent (handleBook (Resolved (Ok (Inr sample_booking))) (Resolved (Ok (Inr sample_state)))
             (initial\<lparr>numRooms := ''2''\<rparr>)) = [POST_book 2 None, GET_rooms]
   \<and> message (handleBook (Resolved (Ok (Inr sample_booking)))
                (Resolved (Ok (Inr sample_state))) (initial\<lparr>numRooms := ''2''\<rparr>)) =
       ''Booked 2 rooms. Travel time: 7 minutes''
   \<and> messageType (handleBook (Resolved (Ok (Inr sample_booking)))
                (Resolved (Ok (Inr sample_state))) (initial\<lparr>numRooms := ''2''\<rparr>)) = success
   \<and> message (handleBook
                (Resolved (Ok (Inr (sample_booking
                   \<lparr>total_travel_time := Some (Integer (Abs_safe_integer 120))\<rparr>))))
                (Resolved (Ok (Inr sample_state))) (initial\<lparr>numRooms := ''2''\<rparr>)) =
       ''Booked 2 rooms. Travel time: 120 minutes''
   \<and> message (handleBook
                (Resolved (Ok (Inr (sample_booking\<lparr>total_travel_time := Some (Other ''7.5'')\<rparr>))))
                (Resolved (Ok (Inr sample_state))) (initial\<lparr>numRooms := ''2''\<rparr>)) =
       ''Booked 2 rooms. Travel time: 7.5 minutes''"
proof -
  let ?w = "initial\<lparr>numRooms := ''2''\<rparr>"
  let ?long = "sample_booking\<lparr>total_travel_time := Some (Integer (Abs_safe_integer 120))\<rparr>"
  let ?half = "sample_booking\<lparr>total_travel_time := Some (Other ''7.5'')\<rparr>"
  have p: "parseInt ''2'' = Some 2" "parseInt (numRooms ?w) = Some 2" "sent ?w = []"
    by (simp_all add: parseInt_examples initial_fields)
  have seven: "decimal (nat (Rep_safe_integer (Abs_safe_integer 7))) = ''7''"
    "\<not> Rep_safe_integer (Abs_safe_integer 7) < 0"
    by (simp_all add: Abs_safe_integer_inverse decimal.simps digit_char_def)
  have long: "decimal (nat (Rep_safe_integer (Abs_safe_integer 120))) = ''120''"
    "\<not> Rep_safe_integer (Abs_safe_integer 120) < 0"
    by (simp_all add: Abs_safe_integer_inverse decimal_examples)
  have fields: "BookingResponse.message ?long = ''Booked 2 rooms''"
    "BookingResponse.message ?half = ''Booked 2 rooms''"
    by (simp_all add: sample_values)
  have h: "parseInt (numRooms ?w) = Some 2 \<and> (1 :: int) \<le> 2 \<and> (2 :: int) \<le> 5
     \<and> bookRooms (Resolved (Ok (Inr r))) = Inr r" for r
    using p by simp
  from booking_success_message_then_refetch
         [OF h, where w' = "fst (handleBook_start ?w)"
            and refetch = "Resolved (Ok (Inr sample_state))"]
  have "message (fst (handleBook_booked (Resolved (Ok (Inr sample_booking)))
                     (fst (handleBook_start ?w)))) =
          ''Booked 2 rooms. Travel time: 7 minutes''"
    and "sent (handleBook (Resolved (Ok (Inr sample_booking)))
               (Resolved (Ok (Inr sample_state))) ?w) = [POST_book 2 None, GET_rooms]"
    and "message (handleBook (Resolved (Ok (Inr sample_booking)))
               (Resolved (Ok (Inr sample_state))) ?w) =
          ''Booked 2 rooms. Travel time: 7 minutes''"
    and "messageType (handleBook (Resolved (Ok (Inr sample_booking)))
               (Resolved (Ok (Inr sample_state))) ?w) = success"
    using p sample_values(3,5,6) seven by simp_all
  moreover
  from booking_success_message_then_refetch
         [OF h, where w' = "fst (handleBook_start ?w)"
            and refetch = "Resolved (Ok (Inr sample_state))"]
  have "message (handleBook (Resolved (Ok (Inr ?long)))
               (Resolved (Ok (Inr sample_state))) ?w) =
          ''Booked 2 rooms. Travel time: 120 minutes''"
    using sample_values(3) fields long by simp
  moreover
  from booking_success_message_then_refetch
         [OF h, where w' = "fst (handleBook_start ?w)"
            and refetch = "Resolved (Ok (Inr sample_state))"]
  have "message (handleBook (Resolved (Ok (Inr ?half)))
               (Resolved (Ok (Inr sample_state))) ?w) =
          ''Booked 2 rooms. Travel time: 7.5 minutes''"
    using sample_values(3) fields by simp
  ultimately show ?thesis
    using p sample_values(1,3) by simp
qed

text \<open>
  C10. When the booking response has no \<^verbatim>\<open>total_travel_time\<close>, the interpolation
  writes \<^verbatim>\<open>undefined\<close>: the message set on the response is
  \<^verbatim>\<open>`${response.message}. Travel time: undefined minutes`\<close>, and it is the message at
  the end of the handler when the refetch succeeds.
\<close>

theorem absent_travel_time_reads_undefined:
  "bookRooms booking = Inr response \<and> total_travel_time response = None \<Longrightarrow>
   message (fst (handleBook_booked booking w')) =
     BookingResponse.message response @ ''. Travel time: undefined minutes''
   \<and> (parseInt (numRooms w) = Some num \<and> 1 \<le> num \<and> num \<le> 5
        \<and> getRooms refetch = Inr state \<longrightarrow>
        message (handleBook booking refetch w) =
          BookingResponse.message response @ ''. Travel time: undefined minutes'')"
  by (auto simp: handleBook_valid handleBook_booked_success handleBook_refetched_message
        fetchRooms_start_fields showMessage_fields)

theorem absent_travel_time_reads_undefined_witness:
  "bookRooms (Resolved (Ok (Inr (sample_booking\<lparr>total_travel_time := None\<rparr>)))) =
     Inr (sample_booking\<lparr>total_travel_time := None\<rparr>)
   \<and> parseInt ''2'' = Some 2
   \<and> message (handleBook (Resolved (Ok (Inr (sample_booking\<lparr>total_travel_time := None\<rparr>))))
                (Resolved (Ok (Inr sample_state))) (initial\<lparr>numRooms := ''2''\<rparr>)) =
       ''Booked 2 rooms. Travel time: undefined minutes''"
proof -
  let ?w = "initial\<lparr>numRooms := ''2''\<rparr>"
  let ?r = "sample_booking\<lparr>total_travel_time := None\<rparr>"
  have p: "parseInt ''2'' = Some 2" "parseInt (numRooms ?w) = Some 2"
    by (simp_all add: parseInt_examples)
  have r: "bookRooms (Resolved (Ok (Inr ?r))) = Inr ?r \<and> total_travel_time ?r = None"
    by simp
  have m: "BookingResponse.message ?r = ''Booked 2 rooms''"
    by (simp add: sample_values)
  from absent_travel_time_reads_undefined
         [OF r, where w = ?w and num = 2 and refetch = "Resolved (Ok (Inr sample_state))"
            and state = sample_state]
  show ?thesis
    using p r m sample_values(3) by simp
qed

subsection \<open>Error texts of the service wrapper\<close>




subsection \<open>Actions while busy\<close>

text \<open>
  C1, as the claim states it, fails: the handlers do not read \<open>loading\<close>. In the
  session that a click on Reset leaves (\<open>loading\<close> holds, one request sent), running
  \<^verbatim>\<open>handleReset\<close> again sends a second request, and when it is answered the message
  changes.
\<close>

theorem handleReset_while_loading_sends_again:
  "loading (handleReset_start initial)
   \<and> sent (handleReset_start initial) = [POST_reset]
   \<and> sent (handleReset_start (handleReset_start initial)) = [POST_reset, POST_reset]
   \<and> message (handleReset_start initial) = []
   \<and> message (handleReset (Resolved (Ok (Inr sample_answer)))
                (Resolved (Ok (Inr sample_state))) (handleReset_start initial)) =
       ''All bookings have been reset''"
  by (simp add: handleReset_def handleReset_start_def handleReset_answered_def
        handleReset_refetched_def fetchRooms_start_def fetchRooms_resume_def showMessage_def
        setters initial_def)

text \<open>
  C1, amended. While \<open>loading\<close> holds, a click on the Book, Reset or Random Occupancy
  button changes nothing and sends nothing: the buttons are disabled
  (\<^verbatim>\<open>disabled={loading}\<close>). The guard is the buttons' only. A handler that runs while
  \<open>loading\<close> holds does what it does otherwise: \<^verbatim>\<open>handleReset\<close> and
  \<^verbatim>\<open>handleRandom\<close> send their request, and so does \<^verbatim>\<open>handleBook\<close> for a valid
  number of rooms.
\<close>

theorem busy_guard_is_the_disabled_buttons:
  "loading w \<Longrightarrow>
   click_Book w = (w, None) \<and> click_Reset w = w \<and> click_Random w = w
   \<and> handleReset_start w = fetch POST_reset w
   \<and> handleRandom_start w = fetch (POST_random_occupancy 30) w
   \<and> (parseInt (numRooms w) = Some num \<and> 1 \<le> num \<and> num \<le> 5 \<longrightarrow>
        handleBook_start w = (fetch (POST_book num None) w, Some num))"
  by (simp add: click_Book_def click_Reset_def click_Random_def handleReset_start_def
        handleRandom_start_def handleBook_start_valid occupancyPercentage_def setters)

theorem busy_guard_is_the_disabled_buttons_witness:
  "loading (handleReset_start initial)
   \<and> click_Book (handleReset_start initial) = (handleReset_start initial, None)
   \<and> click_Reset (handleReset_start initial) = handleReset_start initial
   \<and> click_Random (handleReset_start initial) = handleReset_start initial
   \<and> parseInt (numRooms (handleReset_start initial)) = Some 1
   \<and> sent (fst (handleBook_start (handleReset_start initial))) =
       [POST_reset, POST_book 1 None]"
proof -
  let ?w = "handleReset_start initial"
  have l: "loading ?w"
    by (simp add: handleReset_parts)
  have n: "parseInt (numRooms ?w) = Some 1" "sent ?w = [POST_reset]"
    by (simp_all add: handleReset_start_def setters initial_fields parseInt_examples)
  from busy_guard_is_the_disabled_buttons [OF l, where num = 1]
  show ?thesis
    using l n by (simp add: fetch_def)
qed

subsection \<open>The timer of a message\<close>

text \<open>
  C2, as the claim states it, fails: \<^verbatim>\<open>showMessage\<close> starts a timer and cancels
  none. Message A is set at time 0 and message B at time 1000; at time 3500, after
  A's timer was due (3000) and before B's is (4000), the message is empty, not B's
  text.
\<close>

theorem first_timer_clears_second_message:
  "now (showMessage ''A'' success initial) = 0
   \<and> now (showMessage ''B'' success (wait 1000 (showMessage ''A'' success initial))) = 1000
   \<and> message (showMessage ''B'' success (wait 1000 (showMessage ''A'' success initial))) = ''B''
   \<and> now (wait 2500 (showMessage ''B'' success (wait 1000 (showMessage ''A'' success initial))))
       = 3500
   \<and> message
        (wait 2500 (showMessage ''B'' success (wait 1000 (showMessage ''A'' success initial))))
       = []"
  by (simp add: wait_def showMessage_def setters initial_def Let_def)

text \<open>
  C2, amended. Every \<^verbatim>\<open>showMessage\<close> starts its own timer, due 3000 after the
  message was set, and no timer is ever cancelled. When B is set less than 3000 after A
  (and no older timer is pending), both timers are pending after B is set; B's text is
  the message until A's timer is due, at A's set time + 3000, and from then on the
  message is empty.
\<close>

theorem timers_are_never_cancelled:
  "timeouts w = [] \<and> d1 < 3000 \<Longrightarrow>
   timeouts (showMessage B typeB (wait d1 (showMessage A typeA w))) =
     [now w + 3000, now w + d1 + 3000]
   \<and> now (wait d2 (showMessage B typeB (wait d1 (showMessage A typeA w)))) = now w + d1 + d2
   \<and> message (wait d2 (showMessage B typeB (wait d1 (showMessage A typeA w)))) =
       (if now w + d1 + d2 < now w + 3000 then B else [])"
  by (auto simp add: wait_def showMessage_def setters Let_def)

theorem timers_are_never_cancelled_witness:
  "timeouts initial = [] \<and> (1000 :: nat) < 3000
   \<and> timeouts (showMessage ''B'' success (wait 1000 (showMessage ''A'' success initial))) =
       [3000, 4000]
   \<and> message
        (wait 1999 (showMessage ''B'' success (wait 1000 (showMessage ''A'' success initial))))
       = ''B''
   \<and> message
        (wait 2000 (showMessage ''B'' success (wait 1000 (showMessage ''A'' success initial))))
       = []"
proof -
  have h: "timeouts initial = [] \<and> (1000 :: nat) < 3000"
    by (simp add: initial_fields)
  from timers_are_never_cancelled [OF h, where ?d2.0 = 1999]
       timers_are_never_cancelled [OF h, where ?d2.0 = 2000]
  show ?thesis
    using h by (simp add: initial_fields)
qed

subsection \<open>Rooms of a floor\<close>

lemma mset_insert_by: "mset (insert_by cmp x ys) = add_mset x (mset ys)"
  by (induction ys) simp_all

lemma mset_Array_sort: "mset (Array_sort cmp xs) = mset xs"
  by (induction xs) (simp_all add: Array_sort_def mset_insert_by)

lemma set_insert_by: "set (insert_by cmp x ys) = insert x (set ys)"
  by (induction ys) auto

lemma sorted_insert_by:
  "sorted_wrt (\<lambda>a b. key a \<le> key b) ys \<Longrightarrow>
   sorted_wrt (\<lambda>a b. key a \<le> key b) (insert_by (\<lambda>a b. key a - key b) x ys)"
  for key :: "'a \<Rightarrow> int"
  by (induction ys) (auto simp: set_insert_by)

lemma sorted_Array_sort:
  "sorted_wrt (\<lambda>a b. key a \<le> key b) (Array_sort (\<lambda>a b. key a - key b) xs)"
  for key :: "'a \<Rightarrow> int"
  by (induction xs) (simp_all add: Array_sort_def sorted_insert_by)

text \<open>
  C9. For every registry and every floor, \<^verbatim>\<open>getRoomsForFloor\<close> returns the rooms of
  the registry whose \<^verbatim>\<open>floor\<close> is that floor, each as often as the registry holds it
  and no other room, in ascending order of \<^verbatim>\<open>position\<close>.
\<close>

theorem getRoomsForFloor_filters_and_sorts:
  "mset (getRoomsForFloor w fl) =
     filter_mset (\<lambda>room. floor room = fl) (mset (Object_values (rooms w)))
   \<and> sorted_wrt (\<lambda>a b. position a \<le> position b) (getRoomsForFloor w fl)"
  by (simp add: getRoomsForFloor_def mset_Array_sort sorted_Array_sort)

theorem getRoomsForFloor_filters_and_sorts_witness:
  "map room_number (getRoomsForFloor (initial\<lparr>rooms := sample_rooms\<rparr>) 3) = [302, 301]
   \<and> mset (getRoomsForFloor (initial\<lparr>rooms := sample_rooms\<rparr>) 3) =
       filter_mset (\<lambda>room. floor room = 3)
         (mset (Object_values (rooms (initial\<lparr>rooms := sample_rooms\<rparr>))))
   \<and> sorted_wrt (\<lambda>a b. position a \<le> position b)
         (getRoomsForFloor (initial\<lparr>rooms := sample_rooms\<rparr>) 3)"
proof -
  have "map room_number (getRoomsForFloor (initial\<lparr>rooms := sample_rooms\<rparr>) 3) = [302, 301]"
    by (simp add: getRoomsForFloor_def Array_sort_def Object_values_def sample_rooms_def)
  then show ?thesis
    using getRoomsForFloor_filters_and_sorts [of "initial\<lparr>rooms := sample_rooms\<rparr>" 3]
    by simp
qed

subsection \<open>The synthetic layout\<close>

lemma obj_put_last:
  "\<forall>k \<in> fst ` set m. k < key \<Longrightarrow> obj_put m key v = m @ [(key, v)]"
  by (induction m) auto

lemma floor_positions_appends:
  "\<forall>k \<in> fst ` set m. k < fl * 100 + (pos + 1) \<Longrightarrow>
   floor_positions fl pos m = m @ map (entry fl) [pos..9]"
proof (induction fl pos m rule: floor_positions.induct)
  case (1 fl pos roomsMap)
  show ?case
  proof (cases "pos < 10")
    case True
    let ?m = "obj_put roomsMap (fl * 100 + (pos + 1)) (snd (entry fl pos))"
    have put: "?m = roomsMap @ [entry fl pos]"
      using obj_put_last [OF "1.prems"] by (simp add: entry_def)
    have "\<forall>k \<in> fst ` set ?m. k < fl * 100 + (pos + 1 + 1)"
      unfolding put using "1.prems" by (fastforce simp: entry_def)
    then have "floor_positions fl (pos + 1) ?m = ?m @ map (entry fl) [pos + 1..9]"
      using "1.IH" [OF True refl] by (simp add: entry_def)
    moreover have "[pos..9] = pos # [pos + 1..9]"
      using True by (simp add: upto_rec1)
    moreover have "floor_positions fl pos roomsMap = floor_positions fl (pos + 1) ?m"
      using True by (subst floor_positions.simps) (simp add: Let_def entry_def)
    ultimately show ?thesis
      by (simp add: put)
  next
    case False
    then show ?thesis
      by (subst floor_positions.simps) simp
  qed
qed

lemma floor_10_appends:
  "\<forall>k \<in> fst ` set m. k < 10 * 100 + (pos + 1) \<Longrightarrow>
   floor_10 pos m = m @ map (entry 10) [pos..6]"
proof (induction pos m rule: floor_10.induct)
  case (1 pos roomsMap)
  show ?case
  proof (cases "pos < 7")
    case True
    let ?m = "obj_put roomsMap (1000 + (pos + 1)) (snd (entry 10 pos))"
    have put: "?m = roomsMap @ [entry 10 pos]"
      using obj_put_last [of roomsMap "1000 + (pos + 1)"] "1.prems" by (simp add: entry_def)
    have "\<forall>k \<in> fst ` set ?m. k < 10 * 100 + (pos + 1 + 1)"
      unfolding put using "1.prems" by (fastforce simp: entry_def)
    then have "floor_10 (pos + 1) ?m = ?m @ map (entry 10) [pos + 1..6]"
      using "1.IH" [OF True refl] by (simp add: entry_def)
    moreover have "[pos..6] = pos # [pos + 1..6]"
      using True by (simp add: upto_rec1)
    moreover have "floor_10 pos roomsMap = floor_10 (pos + 1) ?m"
      using True by (subst floor_10.simps) (simp add: Let_def entry_def)
    ultimately show ?thesis
      using put by simp
  next
    case False
    then show ?thesis
      by (subst floor_10.simps) simp
  qed
qed

lemma floors_1_to_9_appends:
  "1 \<le> fl \<Longrightarrow> \<forall>k \<in> fst ` set m. k < fl * 100 + 1 \<Longrightarrow>
   floors_1_to_9 fl m = m @ concat (map (\<lambda>f. map (entry f) [0..9]) [fl..9])"
proof (induction fl m rule: floors_1_to_9.induct)
  case (1 fl roomsMap)
  show ?case
  proof (cases "fl \<le> 9")
    case True
    let ?m = "floor_positions fl 0 roomsMap"
    have row: "?m = roomsMap @ map (entry fl) [0..9]"
      using "1.prems" by (simp add: floor_positions_appends)
    have "\<forall>k \<in> fst ` set ?m. k < (fl + 1) * 100 + 1"
      unfolding row using "1.prems" by (fastforce simp: entry_def)
    then have "floors_1_to_9 (fl + 1) ?m =
        ?m @ concat (map (\<lambda>f. map (entry f) [0..9]) [fl + 1..9])"
      using "1.IH" [OF True] "1.prems" by simp
    moreover have "[fl..9] = fl # [fl + 1..9]"
      using True by (simp add: upto_rec1)
    moreover have "floors_1_to_9 fl roomsMap = floors_1_to_9 (fl + 1) ?m"
      using True by (subst floors_1_to_9.simps) simp
    ultimately show ?thesis
      by (simp add: row)
  next
    case False
    then show ?thesis
      by (subst floors_1_to_9.simps) simp
  qed
qed

lemma synthesized_rooms:
  "rooms (initializeRooms w) =
     concat (map (\<lambda>f. map (entry f) [0..9]) [1..9]) @ map (entry 10) [0..6]"
proof -
  let ?m = "floors_1_to_9 1 []"
  have m: "?m = concat (map (\<lambda>f. map (entry f) [0..9]) [1..9])"
    using floors_1_to_9_appends [of 1 "[]"] by simp
  have "\<forall>k \<in> fst ` set ?m. k < 10 * 100 + (0 + 1)"
    unfolding m by (fastforce simp: entry_def)
  then have "floor_10 0 ?m = ?m @ map (entry 10) [0..6]"
    by (rule floor_10_appends)
  then show ?thesis
    by (simp add: initializeRooms_def setRooms_def m)
qed


lemma upto_0_9: "[0..9] = [0, 1, 2, 3, 4, 5, 6, 7, 8, 9 :: int]"
  by (simp add: upto_rec1)

lemma upto_0_6: "[0..6] = [0, 1, 2, 3, 4, 5, 6 :: int]"
  by (simp add: upto_rec1)

lemma upto_1_9: "[1..9] = [1, 2, 3, 4, 5, 6, 7, 8, 9 :: int]"
  by (simp add: upto_rec1)

lemma floor_entry: "floor (snd (entry fl pos)) = fl" "status (snd (entry fl pos)) = available"
  "room_number (snd (entry fl pos)) = fl * 100 + pos + 1" "position (snd (entry fl pos)) = pos"
  by (simp_all add: entry_def)

lemma filter_row:
  "filter (\<lambda>room. floor room = fl) (map snd (map (entry f) ps)) =
     (if f = fl then map snd (map (entry f) ps) else [])"
  by (induction ps) (auto simp: entry_def)

lemma filtered_rooms:
  "filter (\<lambda>room. floor room = fl) (Object_values (rooms (initializeRooms w))) =
     (if 1 = fl then map snd (map (entry 1) [0..9]) else []) @
     (if 2 = fl then map snd (map (entry 2) [0..9]) else []) @
     (if 3 = fl then map snd (map (entry 3) [0..9]) else []) @
     (if 4 = fl then map snd (map (entry 4) [0..9]) else []) @
     (if 5 = fl then map snd (map (entry 5) [0..9]) else []) @
     (if 6 = fl then map snd (map (entry 6) [0..9]) else []) @
     (if 7 = fl then map snd (map (entry 7) [0..9]) else []) @
     (if 8 = fl then map snd (map (entry 8) [0..9]) else []) @
     (if 9 = fl then map snd (map (entry 9) [0..9]) else []) @
     (if 10 = fl then map snd (map (entry 10) [0..6]) else [])"
  by (simp only: synthesized_rooms Object_values_def upto_1_9 list.map concat.simps
        map_append filter_append filter_row append_Nil2 append_assoc)

lemma rooms_of_floor:
  assumes "1 \<le> fl" "fl \<le> 9"
  shows "filter (\<lambda>room. floor room = fl) (Object_values (rooms (initializeRooms w))) =
           map (\<lambda>pos. snd (entry fl pos)) [0..9]"
proof -
  from assms have "fl = 1 \<or> fl = 2 \<or> fl = 3 \<or> fl = 4 \<or> fl = 5 \<or> fl = 6 \<or> fl = 7
      \<or> fl = 8 \<or> fl = 9"
    by arith
  then show ?thesis
    by (elim disjE) (simp_all add: filtered_rooms)
qed

lemma rooms_of_floor_10:
  "filter (\<lambda>room. floor room = 10) (Object_values (rooms (initializeRooms w))) =
     map (\<lambda>pos. snd (entry 10 pos)) [0..6]"
  by (simp add: filtered_rooms)

lemma length_synthesized: "length (rooms (initializeRooms w)) = 97"
  by (simp add: synthesized_rooms upto_1_9 upto_0_9 upto_0_6)

lemma all_available:
  "list_all (\<lambda>room. status room = available) (Object_values (rooms (initializeRooms w)))"
  by (simp add: synthesized_rooms Object_values_def upto_1_9 upto_0_9 upto_0_6 entry_def)


lemma distinct_synthesized:
  "distinct (map room_number (Object_values (rooms (initializeRooms w))))"
  by (simp add: synthesized_rooms Object_values_def upto_1_9 upto_0_9 upto_0_6 entry_def)

text \<open>
  C7. The registry that \<^verbatim>\<open>initializeRooms\<close> stores has 97 entries, with 97 different
  room numbers, all \<^verbatim>\<open>'available'\<close>. For each floor from 1 to 9 the rooms of that
  floor are the ten rooms numbered \<open>floor * 100 + pos + 1\<close> for the positions
  \<open>pos\<close> from 0 to 9; floor 10 has the seven rooms 1001 to 1007; no room is on another
  floor.
\<close>

theorem initializeRooms_layout:
  "length (Object_values (rooms (initializeRooms w))) = 97
   \<and> distinct (map room_number (Object_values (rooms (initializeRooms w))))
   \<and> list_all (\<lambda>room. status room = available) (Object_values (rooms (initializeRooms w)))
   \<and> (1 \<le> fl \<and> fl \<le> 9 \<longrightarrow>
        filter (\<lambda>room. floor room = fl) (Object_values (rooms (initializeRooms w))) =
          map (\<lambda>pos. \<lparr>room_number = fl * 100 + pos + 1, floor = fl, position = pos,
                      status = available, guest_id = None\<rparr>)
            [0, 1, 2, 3, 4, 5, 6, 7, 8, 9])
   \<and> map room_number
        (filter (\<lambda>room. floor room = 10) (Object_values (rooms (initializeRooms w)))) =
       [1001, 1002, 1003, 1004, 1005, 1006, 1007]
   \<and> map position
        (filter (\<lambda>room. floor room = 10) (Object_values (rooms (initializeRooms w)))) =
       [0, 1, 2, 3, 4, 5, 6]
   \<and> (fl < 1 \<or> 10 < fl \<longrightarrow>
        filter (\<lambda>room. floor room = fl) (Object_values (rooms (initializeRooms w))) = [])"
proof -
  have n: "length (Object_values (rooms (initializeRooms w))) = 97"
    by (simp add: Object_values_def length_synthesized)
  have floors: "filter (\<lambda>room. floor room = fl) (Object_values (rooms (initializeRooms w))) =
          map (\<lambda>pos. \<lparr>room_number = fl * 100 + pos + 1, floor = fl, position = pos,
                      status = available, guest_id = None\<rparr>)
            [0, 1, 2, 3, 4, 5, 6, 7, 8, 9]"
    if "1 \<le> fl" "fl \<le> 9"
    using rooms_of_floor [OF that, of w] by (simp add: upto_0_9 entry_def)
  have top: "map room_number
        (filter (\<lambda>room. floor room = 10) (Object_values (rooms (initializeRooms w)))) =
       [1001, 1002, 1003, 1004, 1005, 1006, 1007]"
    "map position
        (filter (\<lambda>room. floor room = 10) (Object_values (rooms (initializeRooms w)))) =
       [0, 1, 2, 3, 4, 5, 6]"
    by (simp_all add: rooms_of_floor_10 upto_0_6 entry_def)
  have none: "filter (\<lambda>room. floor room = fl) (Object_values (rooms (initializeRooms w))) = []"
    if "fl < 1 \<or> 10 < fl"
    using that by (auto simp: filtered_rooms)
  show ?thesis
    using n distinct_synthesized all_available floors top none by blast
qed

theorem initializeRooms_layout_witness:
  "(1 :: int) \<le> 3 \<and> (3 :: int) \<le> 9
   \<and> length (Object_values (rooms (initializeRooms initial))) = 97
   \<and> map room_number
        (filter (\<lambda>room. floor room = 3) (Object_values (rooms (initializeRooms initial)))) =
       [301, 302, 303, 304, 305, 306, 307, 308, 309, 310]
   \<and> filter (\<lambda>room. floor room = 11) (Object_values (rooms (initializeRooms initial))) = []"
  using initializeRooms_layout [of initial 3] initializeRooms_layout [of initial 11]
  by simp

end
